theory Spec2Isabelle
  imports Main
begin

section \<open>ComparisonRangeLabel: data model\<close>

text \<open>
  The component reads four values from the store's \<open>form_data\<close>, resolves one label
  per active temporal-range filter through the external time-range service, and stores
  the labels. The external utilities (\<open>fetchTimeRange\<close>, \<open>getTimeOffset\<close>,
  \<open>parseDttmToDate\<close>, the dayjs wrapper and \<open>DEFAULT_DATE_PATTERN\<close>) are imported
  from other packages; they are parameters of the model, collected in a record.
\<close>

text \<open>An adhoc filter, with the three fields the component reads.\<close>

record adhoc_filter =
  operator :: string
  subject :: string
  comparator :: string

text \<open>
  The part of \<open>state.explore.form_data\<close> the selectors read. A field that may be
  missing from the object is an \<open>option\<close>; \<open>time_compare\<close> has its declared type
  \<open>string[]\<close>.
\<close>

record form_data =
  adhoc_filters :: "adhoc_filter list"
  adhoc_custom :: "adhoc_filter list option"
  time_compare :: "string list option"
  time_comparison :: "string option"
  start_date_offset :: "string option"

text \<open>The object a fetch resolves to: \<open>{ value?: string }\<close>.\<close>

datatype response = Response (resp_value: "string option")

text \<open>How a promise settles.\<close>

datatype 'a settled = Rejected | Fulfilled 'a

text \<open>The options object handed to \<open>getTimeOffset\<close>.\<close>

record time_offset_args =
  timeRangeFilter :: adhoc_filter
  shifts :: "string list"
  startDate :: "string option"
  includeFutureOffsets :: bool

text \<open>
  The imported utilities, over a type \<open>'d\<close> of date objects. \<open>fetchTimeRange\<close> takes the
  range expression, the subject and the optional shift list (\<open>None\<close> when the argument
  is left out) and settles with a response or rejects; the service is taken to be a
  function of its arguments. \<open>matchDEFAULT_DATE_PATTERN s\<close> is
  \<open>s.match(DEFAULT_DATE_PATTERN)\<close>, with \<open>None\<close> for \<open>null\<close>. \<open>dayjsFormat d p\<close> is \<open>extendedDayjs(d).format(p)\<close>, and
  \<open>isSameOrBefore a b\<close> is \<open>extendedDayjs(a).isSameOrBefore(extendedDayjs(b))\<close>.
\<close>

record 'd services =
  fetchTimeRange :: "string \<Rightarrow> string \<Rightarrow> string list option \<Rightarrow> response settled"
  getTimeOffset :: "time_offset_args \<Rightarrow> string list"
  matchDEFAULT_DATE_PATTERN :: "string \<Rightarrow> string list option"
  parseDttmToDate :: "string option \<Rightarrow> 'd"
  dayjsFormat :: "'d \<Rightarrow> string \<Rightarrow> string"
  isSameOrBefore :: "'d \<Rightarrow> 'd \<Rightarrow> bool"

text \<open>One call of the fetch service: range expression, subject, shift list.\<close>

type_synonym fetch_call = "string \<times> string \<times> string list option"

text \<open>
  A promise of the effect: the fetch calls issued on its behalf, and how it settles.
\<close>

type_synonym 'a promise = "fetch_call list \<times> 'a settled"

section \<open>Constants and selectors\<close>

definition DAYJS_FORMAT :: string where
  "DAYJS_FORMAT = ''YYYY-MM-DD''"

definition oldChoices :: "string \<Rightarrow> string option" where
  "oldChoices k =
     (if k = ''r'' then Some ''inherit''
      else if k = ''y'' then Some ''1 year ago''
      else if k = ''m'' then Some ''1 month ago''
      else if k = ''w'' then Some ''1 week ago''
      else if k = ''c'' then Some ''custom''
      else None)"

definition isTemporalRange :: "adhoc_filter \<Rightarrow> bool" where
  "isTemporalRange adhoc = (operator adhoc = ''TEMPORAL_RANGE'')"

definition currentTimeRangeFilters :: "form_data \<Rightarrow> adhoc_filter list" where
  "currentTimeRangeFilters fd = filter isTemporalRange (adhoc_filters fd)"

definition previousCustomFilter :: "form_data \<Rightarrow> adhoc_filter list option" where
  "previousCustomFilter fd = map_option (filter isTemporalRange) (adhoc_custom fd)"

text \<open>
  The shifts selector. \<open>!formData?.time_compare\<close> holds exactly when the array is
  missing (an empty array is truthy); \<open>formData.time_comparison || ''\<close> turns a missing
  legacy code into the empty string, which is no key of \<open>oldChoices\<close>.
\<close>

definition selectShifts :: "form_data \<Rightarrow> string list option" where
  "selectShifts fd =
     (case time_compare fd of
        None \<Rightarrow>
          (let previousTimeComparison =
                 (case time_comparison fd of None \<Rightarrow> [] | Some c \<Rightarrow> c)
           in case oldChoices previousTimeComparison of
                Some previousChoice \<Rightarrow> Some [previousChoice]
              | None \<Rightarrow> time_compare fd)
      | Some tc \<Rightarrow> Some tc)"

definition selectStartDate :: "form_data \<Rightarrow> string option" where
  "selectStartDate fd = start_date_offset fd"

section \<open>JavaScript helpers\<close>

text \<open>\<open>ensureIsArray\<close> on a value that is an array or missing.\<close>

definition ensureIsArray :: "'a list option \<Rightarrow> 'a list" where
  "ensureIsArray v = (case v of None \<Rightarrow> [] | Some xs \<Rightarrow> xs)"

text \<open>lodash \<open>isEmpty\<close> on an array that may be missing.\<close>

definition isEmpty :: "'a list option \<Rightarrow> bool" where
  "isEmpty v = (case v of None \<Rightarrow> True | Some xs \<Rightarrow> xs = [])"

text \<open>Truthiness of a string that may be missing: the empty string is falsy.\<close>

definition truthy :: "string option \<Rightarrow> bool" where
  "truthy s = (case s of None \<Rightarrow> False | Some t \<Rightarrow> t \<noteq> [])"

text \<open>
  \<open>s.split(sep)[0]\<close> for a non-empty separator: the text before the first occurrence
  of \<open>sep\<close>, the whole string when there is none.
\<close>

fun splitFirst :: "string \<Rightarrow> string \<Rightarrow> string" where
  "splitFirst sep [] = []"
| "splitFirst sep (c # cs) =
     (if take (length sep) (c # cs) = sep then [] else c # splitFirst sep cs)"

text \<open>Array destructuring \<open>[a, b] = dates ?? []\<close>: a missing position is undefined.\<close>

definition nthOpt :: "'a list option \<Rightarrow> nat \<Rightarrow> 'a option" where
  "nthOpt v i =
     (case v of None \<Rightarrow> None
      | Some xs \<Rightarrow> (if i < length xs then Some (xs ! i) else None))"

text \<open>A template literal prints an undefined value as the word \<open>undefined\<close>.\<close>

definition templ :: "string option \<Rightarrow> string" where
  "templ v = (case v of None \<Rightarrow> ''undefined'' | Some s \<Rightarrow> s)"

section \<open>Promises\<close>

definition resolved :: "'a \<Rightarrow> 'a promise" where
  "resolved v = ([], Fulfilled v)"

definition callFetch ::
  "'d services \<Rightarrow> string \<Rightarrow> string \<Rightarrow> string list option \<Rightarrow> response promise" where
  "callFetch sv c s sh = ([(c, s, sh)], fetchTimeRange sv c s sh)"

text \<open>\<open>p.then(k)\<close>: the continuation runs only when \<open>p\<close> is fulfilled.\<close>

definition thenP :: "'a promise \<Rightarrow> ('a \<Rightarrow> 'b promise) \<Rightarrow> 'b promise" where
  "thenP p k =
     (case snd p of
        Rejected \<Rightarrow> (fst p, Rejected)
      | Fulfilled r \<Rightarrow> (fst p @ fst (k r), snd (k r)))"

text \<open>
  \<open>Promise.all\<close>: fulfilled with the results in order when every promise is fulfilled,
  rejected as soon as one is.
\<close>

fun allSettled :: "'a settled list \<Rightarrow> 'a list settled" where
  "allSettled [] = Fulfilled []"
| "allSettled (Rejected # ps) = Rejected"
| "allSettled (Fulfilled r # ps) =
     (case allSettled ps of Rejected \<Rightarrow> Rejected | Fulfilled rs \<Rightarrow> Fulfilled (r # rs))"

section \<open>The effect\<close>

definition isLiteral :: "string \<Rightarrow> bool" where
  "isLiteral shift = (shift \<noteq> ''custom'' \<and> shift \<noteq> ''inherit'')"

definition isRelative :: "string \<Rightarrow> bool" where
  "isRelative shift = (shift = ''custom'' \<or> shift = ''inherit'')"

text \<open>
  The start date handed to \<open>getTimeOffset\<close>: the explicit one, or, when that is falsy
  and a previous custom filter exists, the start of that filter's range, parsed and
  formatted.
\<close>

definition useStartDate ::
  "'d services \<Rightarrow> string option \<Rightarrow> adhoc_filter list option \<Rightarrow> string option" where
  "useStartDate sv sd prev =
     (if \<not> truthy sd \<and> \<not> isEmpty prev then
        (case prev of
           Some (p # ps) \<Rightarrow>
             Some (dayjsFormat sv
                     (parseDttmToDate sv (Some (splitFirst '' : '' (comparator p))))
                     DAYJS_FORMAT)
         | _ \<Rightarrow> sd)
      else sd)"

text \<open>The continuation of the first fetch on the custom/inherit path.\<close>

definition afterOwnRange ::
  "'d services \<Rightarrow> string option \<Rightarrow> string option \<Rightarrow> string list \<Rightarrow>
   adhoc_filter \<Rightarrow> response \<Rightarrow> response promise" where
  "afterOwnRange sv sd usd shiftsArray flt res =
     (let nonCustomNorInheritShifts = filter isLiteral shiftsArray;
          customOrInheritShifts = filter isRelative shiftsArray;
          dates = (case resp_value res of None \<Rightarrow> None | Some v \<Rightarrow> matchDEFAULT_DATE_PATTERN sv v);
          parsedStartDate = nthOpt dates 0;
          parsedEndDate = nthOpt dates 1
      in if truthy parsedStartDate then
           (let parsedDateDayjs = parseDttmToDate sv parsedStartDate;
                startDateDayjs = parseDttmToDate sv sd
            in if isSameOrBefore sv startDateDayjs parsedDateDayjs \<or> \<not> truthy sd then
                 (let postProcessedShifts =
                        getTimeOffset sv
                          \<lparr> timeRangeFilter =
                              flt\<lparr> comparator :=
                                     templ parsedStartDate @ '' : '' @ templ parsedEndDate \<rparr>,
                            shifts = customOrInheritShifts,
                            startDate = usd,
                            includeFutureOffsets = False \<rparr>
                  in callFetch sv (comparator flt) (subject flt)
                       (Some (postProcessedShifts @ nonCustomNorInheritShifts)))
               else resolved (Response (Some [])))
         else resolved (Response (Some [])))"

text \<open>The promise built for one filter by the callback of \<open>map\<close>.\<close>

definition resolveFilter ::
  "'d services \<Rightarrow> string option \<Rightarrow> string option \<Rightarrow> string list \<Rightarrow>
   adhoc_filter \<Rightarrow> response promise" where
  "resolveFilter sv sd usd shiftsArray flt =
     (let nonCustomNorInheritShifts = filter isLiteral shiftsArray;
          customOrInheritShifts = filter isRelative shiftsArray
      in if customOrInheritShifts = [] then
           callFetch sv (comparator flt) (subject flt) (Some nonCustomNorInheritShifts)
         else if (''custom'' \<in> set customOrInheritShifts \<and> truthy sd)
                 \<or> ''inherit'' \<in> set customOrInheritShifts then
           thenP (callFetch sv (comparator flt) (subject flt) None)
                 (afterOwnRange sv sd usd shiftsArray flt)
         else resolved (Response (Some [])))"

text \<open>\<open>r.value ?? ''\<close>.\<close>

definition labelOf :: "response \<Rightarrow> string" where
  "labelOf r = (case resp_value r of None \<Rightarrow> [] | Some v \<Rightarrow> v)"

text \<open>
  What one run of the effect leaves behind: the fetch calls issued, one list per
  filter in filter order, and the label list of the component.
\<close>

record outcome =
  calls :: "fetch_call list list"
  labels :: "string list"

text \<open>The promises of \<open>currentTimeRangeFilters.map(...)\<close>, in filter order.\<close>

definition effectPromises ::
  "'d services \<Rightarrow> adhoc_filter list \<Rightarrow> adhoc_filter list option \<Rightarrow>
   string list option \<Rightarrow> string option \<Rightarrow> response promise list" where
  "effectPromises sv filters prev shiftsSel sd =
     (let shiftsArray = ensureIsArray shiftsSel;
          usd = useStartDate sv sd prev
      in map (resolveFilter sv sd usd shiftsArray) filters)"

text \<open>
  One run of the effect body, from the selected values and the labels stored so far,
  followed to the point where every promise has settled. \<open>setLabels\<close> is reached in the
  first branch and in the continuation of \<open>Promise.all\<close>; a rejected batch has no
  handler, so the labels stay as they were. The promises of a batch run concurrently:
  the calls are recorded per filter, and a promise keeps issuing its calls when another
  one rejects.
\<close>

definition runEffect ::
  "'d services \<Rightarrow> adhoc_filter list \<Rightarrow> adhoc_filter list option \<Rightarrow>
   string list option \<Rightarrow> string option \<Rightarrow> string list \<Rightarrow> outcome" where
  "runEffect sv filters prev shiftsSel sd oldLabels =
     (let shiftsArray = ensureIsArray shiftsSel
      in if filters = [] \<or> (shiftsArray = [] \<and> \<not> truthy sd) then
           \<lparr> calls = [], labels = [] \<rparr>
         else if \<not> isEmpty shiftsSel \<or> truthy sd then
           (let promises = effectPromises sv filters prev shiftsSel sd
            in \<lparr> calls = map fst promises,
                 labels = (case allSettled (map snd promises) of
                             Rejected \<Rightarrow> oldLabels
                           | Fulfilled res \<Rightarrow> map labelOf res) \<rparr>)
         else \<lparr> calls = [], labels = oldLabels \<rparr>)"

text \<open>The effect as the component runs it, on the values its selectors return.\<close>

definition ComparisonRangeLabel :: "'d services \<Rightarrow> form_data \<Rightarrow> string list \<Rightarrow> outcome" where
  "ComparisonRangeLabel sv fd oldLabels =
     runEffect sv (currentTimeRangeFilters fd) (previousCustomFilter fd)
       (selectShifts fd) (selectStartDate fd) oldLabels"

text \<open>The promises of the batch in a given state of the store.\<close>

definition statePromises :: "'d services \<Rightarrow> form_data \<Rightarrow> response promise list" where
  "statePromises sv fd =
     effectPromises sv (currentTimeRangeFilters fd) (previousCustomFilter fd)
       (selectShifts fd) (selectStartDate fd)"

section \<open>A sample environment\<close>

text \<open>
  Concrete services on which the theorems below are exercised. Dates are numbers,
  known for three date strings; the fetch rejects for the subject \<open>broken\<close>,
  gives no value for the subject \<open>silent\<close>, and otherwise answers the range itself when
  no shifts are given and the shifts when they are.
\<close>

definition sampleParse :: "string option \<Rightarrow> nat" where
  "sampleParse s =
     (if s = Some ''2023-12-01'' then 20231201
      else if s = Some ''2024-01-01'' then 20240101
      else if s = Some ''2024-03-01'' then 20240301
      else 0)"

definition sampleFetch :: "string \<Rightarrow> string \<Rightarrow> string list option \<Rightarrow> response settled" where
  "sampleFetch c s sh =
     (if s = ''broken'' then Rejected
      else if s = ''silent'' then Fulfilled (Response None)
      else case sh of
             None \<Rightarrow> Fulfilled (Response (Some c))
           | Some xs \<Rightarrow> Fulfilled (Response (Some (concat (map (\<lambda>x. ''['' @ x @ '']'') xs)))))"

definition sampleOffset :: "time_offset_args \<Rightarrow> string list" where
  "sampleOffset a =
     map (\<lambda>s. s @ '' from '' @ templ (startDate a)) (shifts a)"

definition sampleMatch :: "string \<Rightarrow> string list option" where
  "sampleMatch s = (if length s = 23 then Some [take 10 s, drop 13 s] else None)"

definition sampleServices :: "nat services" where
  "sampleServices =
     \<lparr> fetchTimeRange = sampleFetch,
       getTimeOffset = sampleOffset,
       matchDEFAULT_DATE_PATTERN = sampleMatch,
       parseDttmToDate = sampleParse,
       dayjsFormat = (\<lambda>d p. if d = 20231201 then ''2023-12-01'' else p),
       isSameOrBefore = (\<lambda>a b. a \<le> b) \<rparr>"

definition januaryFilter :: adhoc_filter where
  "januaryFilter =
     \<lparr> operator = ''TEMPORAL_RANGE'', subject = ''ds'',
       comparator = ''2024-01-01 : 2024-02-01'' \<rparr>"

definition decemberFilter :: adhoc_filter where
  "decemberFilter =
     \<lparr> operator = ''TEMPORAL_RANGE'', subject = ''ds'',
       comparator = ''2023-12-01 : 2023-12-31'' \<rparr>"

definition countryFilter :: adhoc_filter where
  "countryFilter = \<lparr> operator = ''=='', subject = ''country'', comparator = ''FR'' \<rparr>"

text \<open>One temporal filter among the adhoc filters, shift \<open>1 week ago\<close>.\<close>

definition weekAgoState :: form_data where
  "weekAgoState =
     \<lparr> adhoc_filters = [countryFilter, januaryFilter], adhoc_custom = None,
       time_compare = Some [''1 week ago''], time_comparison = None,
       start_date_offset = None \<rparr>"

text \<open>Variations of that state, one for each path of the effect.\<close>

definition noFiltersState :: form_data where
  "noFiltersState = weekAgoState\<lparr> adhoc_filters := [countryFilter] \<rparr>"

definition noShiftsState :: form_data where
  "noShiftsState = weekAgoState\<lparr> time_compare := Some [] \<rparr>"

definition startOnlyState :: form_data where
  "startOnlyState =
     weekAgoState\<lparr> time_compare := Some [], start_date_offset := Some ''2024-03-01'' \<rparr>"

definition inheritState :: form_data where
  "inheritState =
     weekAgoState\<lparr> time_compare := Some [''1 week ago'', ''inherit''],
                   adhoc_custom := Some [countryFilter, decemberFilter] \<rparr>"

definition lateStartState :: form_data where
  "lateStartState =
     weekAgoState\<lparr> time_compare := Some [''1 week ago'', ''custom''],
                   start_date_offset := Some ''2024-03-01'' \<rparr>"

definition customNoStartState :: form_data where
  "customNoStartState = weekAgoState\<lparr> time_compare := Some [''1 week ago'', ''custom''] \<rparr>"

definition legacyYearState :: form_data where
  "legacyYearState = weekAgoState\<lparr> time_compare := None, time_comparison := Some ''y'' \<rparr>"

definition brokenState :: form_data where
  "brokenState =
     weekAgoState\<lparr> adhoc_filters := [januaryFilter, januaryFilter\<lparr> subject := ''broken'' \<rparr>] \<rparr>"

definition silentState :: form_data where
  "silentState =
     weekAgoState\<lparr> adhoc_filters := [januaryFilter, januaryFilter\<lparr> subject := ''silent'' \<rparr>] \<rparr>"

text \<open>Services whose date comparison always fails.\<close>

definition neverBeforeServices :: "nat services" where
  "neverBeforeServices = sampleServices\<lparr> isSameOrBefore := (\<lambda>a b. False) \<rparr>"

section \<open>Promise combinators\<close>

lemma allSettled_map_Fulfilled: "allSettled (map Fulfilled rs) = Fulfilled rs"
  by (induction rs) simp_all

lemma allSettled_Rejected: "Rejected \<in> set ps \<Longrightarrow> allSettled ps = Rejected"
  by (induction ps rule: allSettled.induct) (auto split: settled.splits)

lemma no_Rejected_map_Fulfilled: "Rejected \<notin> set ps \<Longrightarrow> \<exists>rs. ps = map Fulfilled rs"
proof (induction ps)
  case Nil
  then show ?case by simp
next
  case (Cons p ps)
  then obtain rs where rs: "ps = map Fulfilled rs" by auto
  from Cons.prems obtain r where "p = Fulfilled r" by (cases p) auto
  with rs have "p # ps = map Fulfilled (r # rs)" by simp
  then show ?case by (rule exI)
qed

section \<open>Branches of the effect\<close>

lemma runEffect_skip:
  "filters = [] \<or> (ensureIsArray shiftsSel = [] \<and> \<not> truthy sd) \<Longrightarrow>
   runEffect sv filters prev shiftsSel sd old = \<lparr> calls = [], labels = [] \<rparr>"
  by (simp add: runEffect_def)

lemma isEmpty_ensureIsArray: "isEmpty v \<longleftrightarrow> ensureIsArray v = []"
  by (simp add: isEmpty_def ensureIsArray_def split: option.splits)

lemma runEffect_batch:
  assumes "filters \<noteq> []" and "ensureIsArray shiftsSel \<noteq> [] \<or> truthy sd"
  shows "runEffect sv filters prev shiftsSel sd old =
           \<lparr> calls = map fst (effectPromises sv filters prev shiftsSel sd),
             labels = (case allSettled (map snd (effectPromises sv filters prev shiftsSel sd)) of
                         Rejected \<Rightarrow> old
                       | Fulfilled res \<Rightarrow> map labelOf res) \<rparr>"
  using assms by (auto simp add: runEffect_def isEmpty_ensureIsArray Let_def)

text \<open>
  The effect has no final \<open>else\<close>; on an array that may be missing the two conditions
  leave no case over, so a run either clears the labels or starts the batch.
\<close>

lemma runEffect_branches:
  "runEffect sv filters prev shiftsSel sd old = \<lparr> calls = [], labels = [] \<rparr> \<or>
   runEffect sv filters prev shiftsSel sd old =
           \<lparr> calls = map fst (effectPromises sv filters prev shiftsSel sd),
             labels = (case allSettled (map snd (effectPromises sv filters prev shiftsSel sd)) of
                         Rejected \<Rightarrow> old
                       | Fulfilled res \<Rightarrow> map labelOf res) \<rparr>"
  by (auto simp add: runEffect_def isEmpty_ensureIsArray Let_def)

lemma length_effectPromises [simp]:
  "length (effectPromises sv filters prev shiftsSel sd) = length filters"
  by (simp add: effectPromises_def)

lemma nth_effectPromises:
  "i < length filters \<Longrightarrow>
   effectPromises sv filters prev shiftsSel sd ! i =
     resolveFilter sv sd (useStartDate sv sd prev) (ensureIsArray shiftsSel) (filters ! i)"
  by (simp add: effectPromises_def)

lemma batch_calls_nth:
  assumes "filters \<noteq> []" and "ensureIsArray shiftsSel \<noteq> [] \<or> truthy sd"
    and "i < length filters"
  shows "calls (runEffect sv filters prev shiftsSel sd old) ! i =
           fst (resolveFilter sv sd (useStartDate sv sd prev) (ensureIsArray shiftsSel) (filters ! i))"
  using assms by (simp add: runEffect_batch nth_effectPromises)

lemma batch_labels_Fulfilled:
  assumes "filters \<noteq> []" and "ensureIsArray shiftsSel \<noteq> [] \<or> truthy sd"
    and "map snd (effectPromises sv filters prev shiftsSel sd) = map Fulfilled rs"
  shows "labels (runEffect sv filters prev shiftsSel sd old) = map labelOf rs"
  using assms by (simp add: runEffect_batch allSettled_map_Fulfilled)

lemma batch_label_nth:
  assumes ne: "filters \<noteq> []" and st: "ensureIsArray shiftsSel \<noteq> [] \<or> truthy sd"
    and ok: "Rejected \<notin> snd ` set (effectPromises sv filters prev shiftsSel sd)"
    and i: "i < length filters"
    and r: "snd (resolveFilter sv sd (useStartDate sv sd prev) (ensureIsArray shiftsSel) (filters ! i))
              = Fulfilled r"
  shows "labels (runEffect sv filters prev shiftsSel sd old) ! i = labelOf r"
proof -
  from ok obtain rs where rs: "map snd (effectPromises sv filters prev shiftsSel sd) = map Fulfilled rs"
    using no_Rejected_map_Fulfilled [of "map snd (effectPromises sv filters prev shiftsSel sd)"]
    by auto
  then have len: "length rs = length filters"
    by (metis length_effectPromises length_map)
  from rs i len have "Fulfilled (rs ! i) = snd (effectPromises sv filters prev shiftsSel sd ! i)"
    by (metis length_effectPromises nth_map)
  with r i have "rs ! i = r" by (simp add: nth_effectPromises)
  with batch_labels_Fulfilled [OF ne st rs] i len show ?thesis by simp
qed

section \<open>Paths of one filter\<close>

lemma filter_isRelative_Nil:
  "''custom'' \<notin> set sh \<Longrightarrow> ''inherit'' \<notin> set sh \<Longrightarrow> filter isRelative sh = []"
  by (auto simp add: filter_empty_conv isRelative_def)

lemma filter_isLiteral_id:
  "''custom'' \<notin> set sh \<Longrightarrow> ''inherit'' \<notin> set sh \<Longrightarrow> filter isLiteral sh = sh"
  by (auto simp add: filter_id_conv isLiteral_def)

lemma resolveFilter_literal:
  assumes "''custom'' \<notin> set sh" and "''inherit'' \<notin> set sh"
  shows "resolveFilter sv sd usd sh flt = callFetch sv (comparator flt) (subject flt) (Some sh)"
  using assms by (simp add: resolveFilter_def filter_isRelative_Nil filter_isLiteral_id)

lemma resolveFilter_relative:
  assumes "(''custom'' \<in> set sh \<and> truthy sd) \<or> ''inherit'' \<in> set sh"
  shows "resolveFilter sv sd usd sh flt =
           thenP (callFetch sv (comparator flt) (subject flt) None)
                 (afterOwnRange sv sd usd sh flt)"
proof -
  from assms have "filter isRelative sh \<noteq> []"
    by (auto simp add: filter_empty_conv isRelative_def)
  with assms show ?thesis
    by (auto simp add: resolveFilter_def Let_def isRelative_def)
qed

lemma resolveFilter_unmet:
  assumes "''custom'' \<in> set sh" and "''inherit'' \<notin> set sh" and "\<not> truthy sd"
  shows "resolveFilter sv sd usd sh flt = ([], Fulfilled (Response (Some [])))"
proof -
  from assms have "filter isRelative sh \<noteq> []"
    by (auto simp add: filter_empty_conv isRelative_def)
  with assms show ?thesis
    by (auto simp add: resolveFilter_def Let_def resolved_def isRelative_def)
qed

lemma afterOwnRange_offsets:
  assumes "matchDEFAULT_DATE_PATTERN sv v = Some (ps # rest)" and "ps \<noteq> []"
    and "isSameOrBefore sv (parseDttmToDate sv sd) (parseDttmToDate sv (Some ps)) \<or> \<not> truthy sd"
  shows "afterOwnRange sv sd usd sh flt (Response (Some v)) =
           callFetch sv (comparator flt) (subject flt)
             (Some (getTimeOffset sv
                      \<lparr> timeRangeFilter =
                          flt\<lparr> comparator := ps @ '' : '' @ templ (nthOpt (Some (ps # rest)) 1) \<rparr>,
                        shifts = filter isRelative sh,
                        startDate = usd,
                        includeFutureOffsets = False \<rparr>
                    @ filter isLiteral sh))"
  using assms by (auto simp add: afterOwnRange_def Let_def nthOpt_def truthy_def templ_def)

lemma afterOwnRange_late:
  assumes "matchDEFAULT_DATE_PATTERN sv v = Some (ps # rest)" and "ps \<noteq> []"
    and "truthy sd"
    and "\<not> isSameOrBefore sv (parseDttmToDate sv sd) (parseDttmToDate sv (Some ps))"
  shows "afterOwnRange sv sd usd sh flt (Response (Some v)) = ([], Fulfilled (Response (Some [])))"
  using assms by (auto simp add: afterOwnRange_def Let_def nthOpt_def truthy_def resolved_def)

lemma thenP_callFetch:
  assumes "fetchTimeRange sv c s sh = Fulfilled r"
  shows "thenP (callFetch sv c s sh) k = ((c, s, sh) # fst (k r), snd (k r))"
  using assms by (simp add: thenP_def callFetch_def)

lemma useStartDate_previous:
  assumes "\<not> truthy sd" and "prev = Some (p # others)"
  shows "useStartDate sv sd prev =
           Some (dayjsFormat sv (parseDttmToDate sv (Some (splitFirst '' : '' (comparator p))))
                   ''YYYY-MM-DD'')"
  using assms by (simp add: useStartDate_def isEmpty_def DAYJS_FORMAT_def)

lemma splitFirst_before:
  assumes "sep \<noteq> []"
    and "\<forall>k<length a. take (length sep) (drop k (a @ sep @ b)) \<noteq> sep"
  shows "splitFirst sep (a @ sep @ b) = a"
  using assms
proof (induction a)
  case Nil
  then show ?case by (cases sep) simp_all
next
  case (Cons c a)
  from Cons.prems(2) have "take (length sep) (drop 0 ((c # a) @ sep @ b)) \<noteq> sep" by blast
  then have hd: "take (length sep) (c # a @ sep @ b) \<noteq> sep" by simp
  have "\<forall>k<length a. take (length sep) (drop k (a @ sep @ b)) \<noteq> sep"
  proof (intro allI impI)
    fix k assume "k < length a"
    then have "Suc k < length (c # a)" by simp
    with Cons.prems(2) have "take (length sep) (drop (Suc k) ((c # a) @ sep @ b)) \<noteq> sep" by blast
    then show "take (length sep) (drop k (a @ sep @ b)) \<noteq> sep" by simp
  qed
  with Cons.IH Cons.prems(1) have "splitFirst sep (a @ sep @ b) = a" by blast
  with hd show ?case by simp
qed

section \<open>The effect in a state of the store\<close>

lemma statePromises_nth:
  "i < length (currentTimeRangeFilters fd) \<Longrightarrow>
   statePromises sv fd ! i =
     resolveFilter sv (selectStartDate fd)
       (useStartDate sv (selectStartDate fd) (previousCustomFilter fd))
       (ensureIsArray (selectShifts fd)) (currentTimeRangeFilters fd ! i)"
  by (simp add: statePromises_def nth_effectPromises)

lemma state_calls_nth:
  assumes "i < length (currentTimeRangeFilters fd)"
    and "ensureIsArray (selectShifts fd) \<noteq> [] \<or> truthy (selectStartDate fd)"
  shows "calls (ComparisonRangeLabel sv fd old) ! i = fst (statePromises sv fd ! i)"
proof -
  from assms(1) have "currentTimeRangeFilters fd \<noteq> []" by auto
  with assms show ?thesis
    by (simp add: ComparisonRangeLabel_def batch_calls_nth statePromises_nth)
qed

lemma state_label_nth:
  assumes "i < length (currentTimeRangeFilters fd)"
    and "ensureIsArray (selectShifts fd) \<noteq> [] \<or> truthy (selectStartDate fd)"
    and "Rejected \<notin> snd ` set (statePromises sv fd)"
    and "snd (statePromises sv fd ! i) = Fulfilled r"
  shows "labels (ComparisonRangeLabel sv fd old) ! i = labelOf r"
proof -
  from assms(1) have "currentTimeRangeFilters fd \<noteq> []" by auto
  with assms show ?thesis
    unfolding ComparisonRangeLabel_def statePromises_def
    by (intro batch_label_nth) (simp_all add: nth_effectPromises)
qed

lemma shifts_nonempty: "s \<in> set (ensureIsArray v) \<Longrightarrow> ensureIsArray v \<noteq> [] \<or> truthy sd"
  by auto

lemma state_batch:
  assumes "currentTimeRangeFilters fd \<noteq> []"
    and "ensureIsArray (selectShifts fd) \<noteq> [] \<or> truthy (selectStartDate fd)"
  shows "ComparisonRangeLabel sv fd old =
           \<lparr> calls = map fst (statePromises sv fd),
             labels = (case allSettled (map snd (statePromises sv fd)) of
                         Rejected \<Rightarrow> old
                       | Fulfilled res \<Rightarrow> map labelOf res) \<rparr>"
  using assms unfolding ComparisonRangeLabel_def statePromises_def by (rule runEffect_batch)

lemma statePromises_literal:
  assumes "''custom'' \<notin> set (ensureIsArray (selectShifts fd))"
    and "''inherit'' \<notin> set (ensureIsArray (selectShifts fd))"
  shows "statePromises sv fd =
           map (\<lambda>f. ([(comparator f, subject f, Some (ensureIsArray (selectShifts fd)))],
                      fetchTimeRange sv (comparator f) (subject f)
                        (Some (ensureIsArray (selectShifts fd)))))
               (currentTimeRangeFilters fd)"
  using assms
  by (simp add: statePromises_def effectPromises_def resolveFilter_literal callFetch_def)

lemma length_statePromises [simp]:
  "length (statePromises sv fd) = length (currentTimeRangeFilters fd)"
  by (simp add: statePromises_def)

lemma relative_own_range:
  assumes "i < length (currentTimeRangeFilters fd)"
    and "(''custom'' \<in> set (ensureIsArray (selectShifts fd)) \<and> truthy (selectStartDate fd))
         \<or> ''inherit'' \<in> set (ensureIsArray (selectShifts fd))"
    and "fetchTimeRange sv (comparator (currentTimeRangeFilters fd ! i))
           (subject (currentTimeRangeFilters fd ! i)) None = Fulfilled r"
  shows "statePromises sv fd ! i =
           ((comparator (currentTimeRangeFilters fd ! i),
             subject (currentTimeRangeFilters fd ! i), None)
            # fst (afterOwnRange sv (selectStartDate fd)
                     (useStartDate sv (selectStartDate fd) (previousCustomFilter fd))
                     (ensureIsArray (selectShifts fd)) (currentTimeRangeFilters fd ! i) r),
            snd (afterOwnRange sv (selectStartDate fd)
                   (useStartDate sv (selectStartDate fd) (previousCustomFilter fd))
                   (ensureIsArray (selectShifts fd)) (currentTimeRangeFilters fd ! i) r))"
  using assms by (simp add: statePromises_nth resolveFilter_relative thenP_callFetch)

lemma single_promise:
  assumes "length ps = 1" and "ps ! 0 = p"
  shows "ps = [p]"
  using assms by (cases ps) simp_all

lemma start_date_only:
  assumes "currentTimeRangeFilters fd \<noteq> []"
    and "ensureIsArray (selectShifts fd) = []"
    and "truthy (selectStartDate fd)"
  shows "ComparisonRangeLabel sv fd old =
           \<lparr> calls = map (\<lambda>f. [(comparator f, subject f, Some [])]) (currentTimeRangeFilters fd),
             labels = (case allSettled (map (\<lambda>f. fetchTimeRange sv (comparator f) (subject f) (Some []))
                                            (currentTimeRangeFilters fd)) of
                         Rejected \<Rightarrow> old
                       | Fulfilled res \<Rightarrow> map labelOf res) \<rparr>"
proof -
  from assms(2) have "''custom'' \<notin> set (ensureIsArray (selectShifts fd))"
    and "''inherit'' \<notin> set (ensureIsArray (selectShifts fd))" by simp_all
  then have "statePromises sv fd =
           map (\<lambda>f. ([(comparator f, subject f, Some [])],
                      fetchTimeRange sv (comparator f) (subject f) (Some [])))
               (currentTimeRangeFilters fd)"
    by (simp add: statePromises_literal assms(2))
  with assms(1,3) show ?thesis by (simp add: state_batch comp_def)
qed

lemma selectors_start_date_update:
  "currentTimeRangeFilters (fd\<lparr> start_date_offset := x \<rparr>) = currentTimeRangeFilters fd"
  "previousCustomFilter (fd\<lparr> start_date_offset := x \<rparr>) = previousCustomFilter fd"
  "selectShifts (fd\<lparr> start_date_offset := x \<rparr>) = selectShifts fd"
  "selectStartDate (fd\<lparr> start_date_offset := x \<rparr>) = x"
  by (simp_all add: currentTimeRangeFilters_def previousCustomFilter_def selectShifts_def
      selectStartDate_def split: option.split)

lemma state_labels_length:
  assumes "currentTimeRangeFilters fd \<noteq> []"
    and "ensureIsArray (selectShifts fd) \<noteq> [] \<or> truthy (selectStartDate fd)"
    and "Rejected \<notin> snd ` set (statePromises sv fd)"
  shows "length (labels (ComparisonRangeLabel sv fd old)) = length (currentTimeRangeFilters fd)"
proof -
  from assms(3) obtain rs where rs: "map snd (statePromises sv fd) = map Fulfilled rs"
    using no_Rejected_map_Fulfilled [of "map snd (statePromises sv fd)"] by auto
  then have "length (map snd (statePromises sv fd)) = length (map Fulfilled rs)" by simp
  then have "length rs = length (currentTimeRangeFilters fd)" by simp
  with rs show ?thesis
    by (simp add: state_batch [OF assms(1,2)] allSettled_map_Fulfilled)
qed

section \<open>Unfolding the sample environment\<close>

lemmas sample_defs =
  sampleServices_def sampleFetch_def sampleOffset_def sampleMatch_def sampleParse_def
  januaryFilter_def decemberFilter_def countryFilter_def weekAgoState_def

lemmas selector_defs =
  currentTimeRangeFilters_def previousCustomFilter_def selectShifts_def selectStartDate_def
  isTemporalRange_def ensureIsArray_def truthy_def oldChoices_def

lemmas state_defs =
  noFiltersState_def noShiftsState_def startOnlyState_def inheritState_def lateStartState_def
  customNoStartState_def legacyYearState_def brokenState_def silentState_def

lemmas path_defs =
  resolveFilter_def afterOwnRange_def callFetch_def thenP_def resolved_def nthOpt_def templ_def
  isLiteral_def isRelative_def

section \<open>The claims of the specification\<close>

subsection \<open>C1: literal shift tags\<close>

text \<open>
  Claim C1, amended. When there is an active temporal filter, the shift-tag list holds
  neither \<open>custom\<close> nor \<open>inherit\<close>, and the list is non-empty or an explicit start date
  is set, exactly one fetch call is issued for each filter, with the filter's comparator,
  its subject and the whole shift-tag list; and once the batch is fulfilled (none of these
  calls is rejected) there is one label per filter, the label of a filter being the
  string value its call returned.
\<close>

theorem literal_shifts_direct_fetch:
  assumes ne: "currentTimeRangeFilters fd \<noteq> []"
    and started: "ensureIsArray (selectShifts fd) \<noteq> [] \<or> truthy (selectStartDate fd)"
    and nc: "''custom'' \<notin> set (ensureIsArray (selectShifts fd))"
    and ni: "''inherit'' \<notin> set (ensureIsArray (selectShifts fd))"
  shows "calls (ComparisonRangeLabel sv fd old) =
           map (\<lambda>f. [(comparator f, subject f, Some (ensureIsArray (selectShifts fd)))])
               (currentTimeRangeFilters fd) \<and>
         ((\<forall>f \<in> set (currentTimeRangeFilters fd).
              fetchTimeRange sv (comparator f) (subject f) (Some (ensureIsArray (selectShifts fd)))
                \<noteq> Rejected) \<longrightarrow>
          length (labels (ComparisonRangeLabel sv fd old)) = length (currentTimeRangeFilters fd) \<and>
          (\<forall>i < length (currentTimeRangeFilters fd). \<forall>s.
              fetchTimeRange sv (comparator (currentTimeRangeFilters fd ! i))
                (subject (currentTimeRangeFilters fd ! i)) (Some (ensureIsArray (selectShifts fd)))
                = Fulfilled (Response (Some s)) \<longrightarrow>
              labels (ComparisonRangeLabel sv fd old) ! i = s))"
proof (intro conjI impI allI)
  show "calls (ComparisonRangeLabel sv fd old) =
           map (\<lambda>f. [(comparator f, subject f, Some (ensureIsArray (selectShifts fd)))])
               (currentTimeRangeFilters fd)"
    by (simp add: state_batch [OF ne started] statePromises_literal [OF nc ni] comp_def)
next
  assume "\<forall>f \<in> set (currentTimeRangeFilters fd).
              fetchTimeRange sv (comparator f) (subject f) (Some (ensureIsArray (selectShifts fd)))
                \<noteq> Rejected"
  then have ok: "Rejected \<notin> snd ` set (statePromises sv fd)"
    by (auto simp add: statePromises_literal [OF nc ni])
  then show "length (labels (ComparisonRangeLabel sv fd old)) = length (currentTimeRangeFilters fd)"
    by (rule state_labels_length [OF ne started])
  fix i s
  assume i: "i < length (currentTimeRangeFilters fd)"
    and "fetchTimeRange sv (comparator (currentTimeRangeFilters fd ! i))
           (subject (currentTimeRangeFilters fd ! i)) (Some (ensureIsArray (selectShifts fd)))
           = Fulfilled (Response (Some s))"
  with i have "snd (statePromises sv fd ! i) = Fulfilled (Response (Some s))"
    by (simp add: statePromises_literal [OF nc ni])
  from state_label_nth [OF i started ok this]
  show "labels (ComparisonRangeLabel sv fd old) ! i = s" by (simp add: labelOf_def)
qed

text \<open>
  The example of the specification: one filter on \<open>ds\<close> with the range
  \<open>2024-01-01 : 2024-02-01\<close> and the shift \<open>1 week ago\<close>.
\<close>

theorem literal_shifts_direct_fetch_witness:
  "calls (ComparisonRangeLabel sampleServices weekAgoState [''stale'']) =
     [[(''2024-01-01 : 2024-02-01'', ''ds'', Some [''1 week ago''])]] \<and>
   length (labels (ComparisonRangeLabel sampleServices weekAgoState [''stale''])) = 1 \<and>
   labels (ComparisonRangeLabel sampleServices weekAgoState [''stale'']) ! 0 = ''[1 week ago]''"
proof -
  have flt: "currentTimeRangeFilters weekAgoState = [januaryFilter]"
    and sh: "ensureIsArray (selectShifts weekAgoState) = [''1 week ago'']"
    by (simp_all add: sample_defs selector_defs)
  have h1: "currentTimeRangeFilters weekAgoState \<noteq> []"
    and h2: "ensureIsArray (selectShifts weekAgoState) \<noteq> [] \<or> truthy (selectStartDate weekAgoState)"
    and h3: "''custom'' \<notin> set (ensureIsArray (selectShifts weekAgoState))"
    and h4: "''inherit'' \<notin> set (ensureIsArray (selectShifts weekAgoState))"
    by (simp_all add: flt sh)
  have h5: "fetchTimeRange sampleServices (comparator januaryFilter) (subject januaryFilter)
              (Some [''1 week ago'']) = Fulfilled (Response (Some ''[1 week ago]''))"
    by (simp add: sample_defs)
  from literal_shifts_direct_fetch [OF h1 h2 h3 h4, of sampleServices "[''stale'']"] h5
  show ?thesis by (simp add: flt sh januaryFilter_def)
qed

text \<open>
  The claim as first stated asks only for a shift-tag list without \<open>custom\<close> and
  \<open>inherit\<close>. The empty list is one, and with it and no start date the effect takes its
  first branch: one active filter, no fetch call and no label.
\<close>

theorem literal_shifts_skipped_counterexample:
  "currentTimeRangeFilters noShiftsState = [januaryFilter] \<and>
   ''custom'' \<notin> set (ensureIsArray (selectShifts noShiftsState)) \<and>
   ''inherit'' \<notin> set (ensureIsArray (selectShifts noShiftsState)) \<and>
   calls (ComparisonRangeLabel sampleServices noShiftsState [''stale'']) = [] \<and>
   labels (ComparisonRangeLabel sampleServices noShiftsState [''stale'']) = []"
  by (simp add: ComparisonRangeLabel_def runEffect_def state_defs sample_defs selector_defs)

subsection \<open>C2: inherit, offsets computed and merged\<close>

text \<open>
  Claim C2. For the filter at position \<open>i\<close>, when the shift tags contain \<open>inherit\<close>, the
  fetch of the filter's own range (no shift argument) is fulfilled with a value in which
  the date pattern finds a non-empty start date, and an explicit start date, if given, is
  on or before that parsed date: the offsets are computed by \<open>getTimeOffset\<close> on the
  custom/inherit tags with \<open>includeFutureOffsets = false\<close>, the literal tags are appended
  to them, exactly two fetch calls are issued for the filter, the second with that
  combined list, and the filter's promise settles as the second fetch does; once the
  batch is fulfilled, the label at position \<open>i\<close> is the value the second fetch returned.
\<close>

theorem inherit_offsets_then_refetch:
  assumes i: "i < length (currentTimeRangeFilters fd)"
    and flt: "flt = currentTimeRangeFilters fd ! i"
    and inh: "''inherit'' \<in> set (ensureIsArray (selectShifts fd))"
    and own: "fetchTimeRange sv (comparator flt) (subject flt) None = Fulfilled (Response (Some v))"
    and dates: "matchDEFAULT_DATE_PATTERN sv v = Some (ps # rest)"
    and ps: "ps \<noteq> []"
    and gate: "truthy (selectStartDate fd) \<longrightarrow>
               isSameOrBefore sv (parseDttmToDate sv (selectStartDate fd))
                 (parseDttmToDate sv (Some ps))"
    and combined: "combined =
               getTimeOffset sv
                 \<lparr> timeRangeFilter =
                     flt\<lparr> comparator := ps @ '' : '' @ templ (nthOpt (Some (ps # rest)) 1) \<rparr>,
                   shifts = filter isRelative (ensureIsArray (selectShifts fd)),
                   startDate = useStartDate sv (selectStartDate fd) (previousCustomFilter fd),
                   includeFutureOffsets = False \<rparr>
               @ filter isLiteral (ensureIsArray (selectShifts fd))"
  shows "calls (ComparisonRangeLabel sv fd old) ! i =
           [(comparator flt, subject flt, None), (comparator flt, subject flt, Some combined)] \<and>
         snd (statePromises sv fd ! i) =
           fetchTimeRange sv (comparator flt) (subject flt) (Some combined) \<and>
         (Rejected \<notin> snd ` set (statePromises sv fd) \<and>
          fetchTimeRange sv (comparator flt) (subject flt) (Some combined)
            = Fulfilled (Response (Some lbl)) \<longrightarrow>
          labels (ComparisonRangeLabel sv fd old) ! i = lbl)"
proof -
  let ?sd = "selectStartDate fd" and ?sh = "ensureIsArray (selectShifts fd)"
  let ?usd = "useStartDate sv ?sd (previousCustomFilter fd)"
  from inh have started: "?sh \<noteq> [] \<or> truthy ?sd" by (rule shifts_nonempty)
  from gate have gate': "isSameOrBefore sv (parseDttmToDate sv ?sd) (parseDttmToDate sv (Some ps))
                          \<or> \<not> truthy ?sd" by blast
  from inh have "resolveFilter sv ?sd ?usd ?sh flt =
                   thenP (callFetch sv (comparator flt) (subject flt) None)
                         (afterOwnRange sv ?sd ?usd ?sh flt)"
    by (intro resolveFilter_relative) simp
  also have "\<dots> = ((comparator flt, subject flt, None)
                      # fst (afterOwnRange sv ?sd ?usd ?sh flt (Response (Some v))),
                    snd (afterOwnRange sv ?sd ?usd ?sh flt (Response (Some v))))"
    using own by (rule thenP_callFetch)
  also have "afterOwnRange sv ?sd ?usd ?sh flt (Response (Some v)) =
               callFetch sv (comparator flt) (subject flt) (Some combined)"
    unfolding combined using dates ps gate' by (rule afterOwnRange_offsets)
  finally have p: "statePromises sv fd ! i =
      ([(comparator flt, subject flt, None), (comparator flt, subject flt, Some combined)],
       fetchTimeRange sv (comparator flt) (subject flt) (Some combined))"
    using i flt by (simp add: statePromises_nth callFetch_def)
  have c: "calls (ComparisonRangeLabel sv fd old) ! i =
           [(comparator flt, subject flt, None), (comparator flt, subject flt, Some combined)]"
    using i started p by (simp add: state_calls_nth)
  have l: "labels (ComparisonRangeLabel sv fd old) ! i = lbl"
    if "Rejected \<notin> snd ` set (statePromises sv fd)"
      and "fetchTimeRange sv (comparator flt) (subject flt) (Some combined)
             = Fulfilled (Response (Some lbl))"
  proof -
    from that(2) p have "snd (statePromises sv fd ! i) = Fulfilled (Response (Some lbl))" by simp
    from state_label_nth [OF i started that(1) this] show ?thesis by (simp add: labelOf_def)
  qed
  from p c l show ?thesis by simp
qed

text \<open>
  The sample state with shifts \<open>1 week ago\<close> and \<open>inherit\<close>, no explicit start date
  and a previous custom filter starting on 2023-12-01.
\<close>

theorem inherit_offsets_then_refetch_witness:
  "calls (ComparisonRangeLabel sampleServices inheritState [''stale'']) ! 0 =
     [(''2024-01-01 : 2024-02-01'', ''ds'', None),
      (''2024-01-01 : 2024-02-01'', ''ds'', Some [''inherit from 2023-12-01'', ''1 week ago''])] \<and>
   labels (ComparisonRangeLabel sampleServices inheritState [''stale'']) ! 0 =
     ''[inherit from 2023-12-01][1 week ago]''"
proof -
  have flt: "currentTimeRangeFilters inheritState = [januaryFilter]"
    and sh: "ensureIsArray (selectShifts inheritState) = [''1 week ago'', ''inherit'']"
    and sd: "selectStartDate inheritState = None"
    by (simp_all add: state_defs sample_defs selector_defs)
  have usd: "useStartDate sampleServices None (previousCustomFilter inheritState) = Some ''2023-12-01''"
    by (simp add: state_defs sample_defs selector_defs useStartDate_def isEmpty_def DAYJS_FORMAT_def)
  have "statePromises sampleServices inheritState =
          [resolveFilter sampleServices None (Some ''2023-12-01'') [''1 week ago'', ''inherit'']
             januaryFilter]"
    by (simp add: statePromises_def effectPromises_def flt sh sd usd)
  then have ok: "Rejected \<notin> snd ` set (statePromises sampleServices inheritState)"
    by (simp add: path_defs sample_defs Let_def truthy_def)
  have h1: "0 < length (currentTimeRangeFilters inheritState)"
    and h2: "januaryFilter = currentTimeRangeFilters inheritState ! 0"
    and h3: "''inherit'' \<in> set (ensureIsArray (selectShifts inheritState))"
    by (simp_all add: flt sh)
  have h4: "fetchTimeRange sampleServices (comparator januaryFilter) (subject januaryFilter) None
              = Fulfilled (Response (Some ''2024-01-01 : 2024-02-01''))"
    and h5: "matchDEFAULT_DATE_PATTERN sampleServices ''2024-01-01 : 2024-02-01''
              = Some (''2024-01-01'' # [''2024-02-01''])"
    and h6: "''2024-01-01'' \<noteq> []"
    and h7: "truthy (selectStartDate inheritState) \<longrightarrow>
             isSameOrBefore sampleServices (parseDttmToDate sampleServices (selectStartDate inheritState))
               (parseDttmToDate sampleServices (Some ''2024-01-01''))"
    by (simp_all add: sample_defs sd truthy_def)
  have h8: "[''inherit from 2023-12-01'', ''1 week ago''] =
              getTimeOffset sampleServices
                \<lparr> timeRangeFilter =
                    januaryFilter\<lparr> comparator :=
                      ''2024-01-01'' @ '' : ''
                        @ templ (nthOpt (Some (''2024-01-01'' # [''2024-02-01''])) 1) \<rparr>,
                  shifts = filter isRelative (ensureIsArray (selectShifts inheritState)),
                  startDate = useStartDate sampleServices (selectStartDate inheritState)
                                (previousCustomFilter inheritState),
                  includeFutureOffsets = False \<rparr>
              @ filter isLiteral (ensureIsArray (selectShifts inheritState))"
    unfolding sh sd usd
    by (simp add: sample_defs templ_def isLiteral_def isRelative_def)
  have h9: "fetchTimeRange sampleServices (comparator januaryFilter) (subject januaryFilter)
              (Some [''inherit from 2023-12-01'', ''1 week ago''])
              = Fulfilled (Response (Some ''[inherit from 2023-12-01][1 week ago]''))"
    by (simp add: sample_defs)
  from inherit_offsets_then_refetch [OF h1 h2 h3 h4 h5 h6 h7 h8] ok h9
  show ?thesis by (simp add: januaryFilter_def)
qed

subsection \<open>C3: explicit start date after the filter's start\<close>

text \<open>
  Claim C3. For the filter at position \<open>i\<close>, when \<open>custom\<close> or \<open>inherit\<close> is among the
  shift tags, an explicit start date is given, the fetch of the filter's own range is
  fulfilled with a value in which the date pattern finds a non-empty start date, and the
  explicit start date is not on or before that parsed date: only the first fetch is
  issued, the filter's promise is fulfilled with the empty string, and once the batch is
  fulfilled the label at position \<open>i\<close> is the empty string.
\<close>

theorem late_start_date_empty_label:
  assumes i: "i < length (currentTimeRangeFilters fd)"
    and flt: "flt = currentTimeRangeFilters fd ! i"
    and rel: "''custom'' \<in> set (ensureIsArray (selectShifts fd)) \<or>
              ''inherit'' \<in> set (ensureIsArray (selectShifts fd))"
    and given: "truthy (selectStartDate fd)"
    and own: "fetchTimeRange sv (comparator flt) (subject flt) None = Fulfilled (Response (Some v))"
    and dates: "matchDEFAULT_DATE_PATTERN sv v = Some (ps # rest)"
    and ps: "ps \<noteq> []"
    and late: "\<not> isSameOrBefore sv (parseDttmToDate sv (selectStartDate fd))
                 (parseDttmToDate sv (Some ps))"
  shows "statePromises sv fd ! i =
           ([(comparator flt, subject flt, None)], Fulfilled (Response (Some []))) \<and>
         (Rejected \<notin> snd ` set (statePromises sv fd) \<longrightarrow>
          labels (ComparisonRangeLabel sv fd old) ! i = [])"
proof -
  from rel given
  have rel': "(''custom'' \<in> set (ensureIsArray (selectShifts fd)) \<and> truthy (selectStartDate fd))
              \<or> ''inherit'' \<in> set (ensureIsArray (selectShifts fd))" by blast
  from given have started: "ensureIsArray (selectShifts fd) \<noteq> [] \<or> truthy (selectStartDate fd)" ..
  from own have own': "fetchTimeRange sv (comparator (currentTimeRangeFilters fd ! i))
           (subject (currentTimeRangeFilters fd ! i)) None = Fulfilled (Response (Some v))"
    by (simp add: flt)
  have p: "statePromises sv fd ! i =
           ([(comparator flt, subject flt, None)], Fulfilled (Response (Some [])))"
    by (simp add: relative_own_range [OF i rel' own']
          afterOwnRange_late [OF dates ps given late] flt)
  have "labels (ComparisonRangeLabel sv fd old) ! i = []"
    if "Rejected \<notin> snd ` set (statePromises sv fd)"
  proof -
    from p have "snd (statePromises sv fd ! i) = Fulfilled (Response (Some []))" by simp
    from state_label_nth [OF i started that this] show ?thesis by (simp add: labelOf_def)
  qed
  with p show ?thesis by simp
qed

text \<open>
  The sample state with the shift \<open>custom\<close> and the start date 2024-03-01, later than
  the filter's 2024-01-01.
\<close>

theorem late_start_date_empty_label_witness:
  "statePromises sampleServices lateStartState ! 0 =
     ([(''2024-01-01 : 2024-02-01'', ''ds'', None)], Fulfilled (Response (Some []))) \<and>
   labels (ComparisonRangeLabel sampleServices lateStartState [''stale'']) ! 0 = []"
proof -
  have flt: "currentTimeRangeFilters lateStartState = [januaryFilter]"
    and sh: "ensureIsArray (selectShifts lateStartState) = [''1 week ago'', ''custom'']"
    and sd: "selectStartDate lateStartState = Some ''2024-03-01''"
    by (simp_all add: state_defs sample_defs selector_defs)
  have h1: "0 < length (currentTimeRangeFilters lateStartState)"
    and h2: "januaryFilter = currentTimeRangeFilters lateStartState ! 0"
    and h3: "''custom'' \<in> set (ensureIsArray (selectShifts lateStartState)) \<or>
             ''inherit'' \<in> set (ensureIsArray (selectShifts lateStartState))"
    and h4: "truthy (selectStartDate lateStartState)"
    by (simp_all add: flt sh sd truthy_def)
  have h5: "fetchTimeRange sampleServices (comparator januaryFilter) (subject januaryFilter) None
              = Fulfilled (Response (Some ''2024-01-01 : 2024-02-01''))"
    and h6: "matchDEFAULT_DATE_PATTERN sampleServices ''2024-01-01 : 2024-02-01''
              = Some (''2024-01-01'' # [''2024-02-01''])"
    and h7: "''2024-01-01'' \<noteq> []"
    and h8: "\<not> isSameOrBefore sampleServices
                 (parseDttmToDate sampleServices (selectStartDate lateStartState))
                 (parseDttmToDate sampleServices (Some ''2024-01-01''))"
    by (simp_all add: sample_defs sd)
  note fact = late_start_date_empty_label [OF h1 h2 h3 h4 h5 h6 h7 h8, of "[''stale'']"]
  from fact have "statePromises sampleServices lateStartState ! 0 =
      ([(comparator januaryFilter, subject januaryFilter, None)], Fulfilled (Response (Some [])))"
    by blast
  then have "statePromises sampleServices lateStartState =
      [([(comparator januaryFilter, subject januaryFilter, None)], Fulfilled (Response (Some [])))]"
    by (intro single_promise) (simp_all add: flt)
  then have ok: "Rejected \<notin> snd ` set (statePromises sampleServices lateStartState)" by simp
  from fact ok show ?thesis by (simp add: januaryFilter_def)
qed

subsection \<open>C4: custom without a start date\<close>

text \<open>
  Claim C4. For the filter at position \<open>i\<close>, when \<open>custom\<close> is among the shift tags,
  \<open>inherit\<close> is not, and no explicit start date is set: the filter's promise is
  fulfilled with the empty string without any fetch call, so no second fetch with
  computed offsets is made, and once the batch is fulfilled the label at position \<open>i\<close>
  is the empty string.
\<close>

theorem custom_without_start_date_empty_label:
  assumes i: "i < length (currentTimeRangeFilters fd)"
    and custom: "''custom'' \<in> set (ensureIsArray (selectShifts fd))"
    and no_inherit: "''inherit'' \<notin> set (ensureIsArray (selectShifts fd))"
    and no_start: "\<not> truthy (selectStartDate fd)"
  shows "statePromises sv fd ! i = ([], Fulfilled (Response (Some []))) \<and>
         calls (ComparisonRangeLabel sv fd old) ! i = [] \<and>
         (Rejected \<notin> snd ` set (statePromises sv fd) \<longrightarrow>
          labels (ComparisonRangeLabel sv fd old) ! i = [])"
proof -
  from custom have started: "ensureIsArray (selectShifts fd) \<noteq> [] \<or> truthy (selectStartDate fd)"
    by (rule shifts_nonempty)
  have p: "statePromises sv fd ! i = ([], Fulfilled (Response (Some [])))"
    by (simp add: statePromises_nth [OF i] resolveFilter_unmet [OF custom no_inherit no_start])
  then have c: "calls (ComparisonRangeLabel sv fd old) ! i = []"
    by (simp add: state_calls_nth [OF i started])
  have "labels (ComparisonRangeLabel sv fd old) ! i = []"
    if "Rejected \<notin> snd ` set (statePromises sv fd)"
  proof -
    from p have "snd (statePromises sv fd ! i) = Fulfilled (Response (Some []))" by simp
    from state_label_nth [OF i started that this] show ?thesis by (simp add: labelOf_def)
  qed
  with p c show ?thesis by simp
qed

text \<open>The sample state with the shifts \<open>1 week ago\<close> and \<open>custom\<close> and no start date.\<close>

theorem custom_without_start_date_empty_label_witness:
  "calls (ComparisonRangeLabel sampleServices customNoStartState [''stale'']) ! 0 = [] \<and>
   labels (ComparisonRangeLabel sampleServices customNoStartState [''stale'']) ! 0 = []"
proof -
  have flt: "currentTimeRangeFilters customNoStartState = [januaryFilter]"
    and sh: "ensureIsArray (selectShifts customNoStartState) = [''1 week ago'', ''custom'']"
    and sd: "selectStartDate customNoStartState = None"
    by (simp_all add: state_defs sample_defs selector_defs)
  have h1: "0 < length (currentTimeRangeFilters customNoStartState)"
    and h2: "''custom'' \<in> set (ensureIsArray (selectShifts customNoStartState))"
    and h3: "''inherit'' \<notin> set (ensureIsArray (selectShifts customNoStartState))"
    and h4: "\<not> truthy (selectStartDate customNoStartState)"
    by (simp_all add: flt sh sd truthy_def)
  note fact = custom_without_start_date_empty_label [OF h1 h2 h3 h4, of sampleServices "[''stale'']"]
  from fact have "statePromises sampleServices customNoStartState ! 0 =
      ([], Fulfilled (Response (Some [])))"
    by blast
  then have "statePromises sampleServices customNoStartState =
      [([], Fulfilled (Response (Some [])))]"
    by (intro single_promise) (simp_all add: flt)
  then have ok: "Rejected \<notin> snd ` set (statePromises sampleServices customNoStartState)" by simp
  from fact ok show ?thesis by simp
qed

subsection \<open>C5: nothing to resolve\<close>

text \<open>
  Claim C5. In every state, if there is no active temporal-range filter, or the shift-tag
  list is empty and no explicit start date is set, the effect sets the label list to the
  empty list and calls the fetch service for no filter.
\<close>

theorem no_filters_or_nothing_to_shift:
  assumes "currentTimeRangeFilters fd = [] \<or>
           (ensureIsArray (selectShifts fd) = [] \<and> \<not> truthy (selectStartDate fd))"
  shows "ComparisonRangeLabel sv fd old = \<lparr> calls = [], labels = [] \<rparr>"
  using assms unfolding ComparisonRangeLabel_def by (rule runEffect_skip)

text \<open>
  Both halves of the condition on the sample states: a state without a temporal filter,
  and a state with one but with neither shifts nor a start date.
\<close>

theorem no_filters_or_nothing_to_shift_witness:
  "currentTimeRangeFilters noFiltersState = [] \<and>
   ComparisonRangeLabel sampleServices noFiltersState [''stale''] = \<lparr> calls = [], labels = [] \<rparr> \<and>
   ensureIsArray (selectShifts noShiftsState) = [] \<and>
   ComparisonRangeLabel sampleServices noShiftsState [''stale''] = \<lparr> calls = [], labels = [] \<rparr>"
proof -
  have a: "currentTimeRangeFilters noFiltersState = []"
    by (simp add: noFiltersState_def sample_defs selector_defs)
  have b: "ensureIsArray (selectShifts noShiftsState) = []"
    and c: "\<not> truthy (selectStartDate noShiftsState)"
    by (simp_all add: noShiftsState_def sample_defs selector_defs)
  from a have "ComparisonRangeLabel sampleServices noFiltersState [''stale'']
                 = \<lparr> calls = [], labels = [] \<rparr>"
    by (intro no_filters_or_nothing_to_shift) simp
  moreover from b c have "ComparisonRangeLabel sampleServices noShiftsState [''stale'']
                 = \<lparr> calls = [], labels = [] \<rparr>"
    by (intro no_filters_or_nothing_to_shift) simp
  ultimately show ?thesis using a b by simp
qed

subsection \<open>C6: legacy shift codes\<close>

text \<open>
  Claim C6. When \<open>time_compare\<close> is absent, the legacy codes \<open>r\<close>, \<open>y\<close>, \<open>m\<close>,
  \<open>w\<close> and \<open>c\<close> in \<open>time_comparison\<close> give the one-element shift lists \<open>inherit\<close>,
  \<open>1 year ago\<close>, \<open>1 month ago\<close>, \<open>1 week ago\<close> and \<open>custom\<close>; in particular the code
  \<open>y\<close> gives exactly \<open>["1 year ago"]\<close>. When \<open>time_compare\<close> is present it is used as it
  is, whatever the legacy field holds.
\<close>

theorem legacy_shift_codes:
  "(time_compare fd = None \<longrightarrow>
      (time_comparison fd = Some ''r'' \<longrightarrow> ensureIsArray (selectShifts fd) = [''inherit'']) \<and>
      (time_comparison fd = Some ''y'' \<longrightarrow> ensureIsArray (selectShifts fd) = [''1 year ago'']) \<and>
      (time_comparison fd = Some ''m'' \<longrightarrow> ensureIsArray (selectShifts fd) = [''1 month ago'']) \<and>
      (time_comparison fd = Some ''w'' \<longrightarrow> ensureIsArray (selectShifts fd) = [''1 week ago'']) \<and>
      (time_comparison fd = Some ''c'' \<longrightarrow> ensureIsArray (selectShifts fd) = [''custom''])) \<and>
   (time_compare fd = Some tc \<longrightarrow> selectShifts fd = Some tc)"
  by (simp add: selectShifts_def oldChoices_def ensureIsArray_def)

text \<open>
  The legacy code \<open>y\<close> without \<open>time_compare\<close>, and the same state once
  \<open>time_compare\<close> is present.
\<close>

theorem legacy_shift_codes_witness:
  "ensureIsArray (selectShifts legacyYearState) = [''1 year ago''] \<and>
   selectShifts (legacyYearState\<lparr> time_compare := Some [''1 week ago''] \<rparr>) = Some [''1 week ago'']"
proof -
  have a: "time_compare legacyYearState = None"
    and b: "time_comparison legacyYearState = Some ''y''"
    by (simp_all add: legacyYearState_def weekAgoState_def)
  have c: "time_compare (legacyYearState\<lparr> time_compare := Some [''1 week ago''] \<rparr>)
             = Some [''1 week ago'']"
    by simp
  from legacy_shift_codes [of legacyYearState] a b
  have "ensureIsArray (selectShifts legacyYearState) = [''1 year ago'']" by blast
  moreover from legacy_shift_codes [of "legacyYearState\<lparr> time_compare := Some [''1 week ago''] \<rparr>"
                                      "[''1 week ago'']"] c
  have "selectShifts (legacyYearState\<lparr> time_compare := Some [''1 week ago''] \<rparr>) = Some [''1 week ago'']"
    by blast
  ultimately show ?thesis by simp
qed

subsection \<open>C7: a rejected promise\<close>

text \<open>
  Claim C7. When the batch is started and the promise of some filter is rejected, the
  label list after the effect is the label list before it: nothing is updated, neither
  for the rejected filter nor for the others.
\<close>

theorem rejected_batch_keeps_labels:
  assumes started: "ensureIsArray (selectShifts fd) \<noteq> [] \<or> truthy (selectStartDate fd)"
    and rejected: "Rejected \<in> snd ` set (statePromises sv fd)"
  shows "labels (ComparisonRangeLabel sv fd old) = old"
proof -
  from rejected have "statePromises sv fd \<noteq> []" by auto
  then have ne: "currentTimeRangeFilters fd \<noteq> []"
    by (simp add: statePromises_def effectPromises_def)
  from rejected have "allSettled (map snd (statePromises sv fd)) = Rejected"
    by (intro allSettled_Rejected) simp
  then show ?thesis by (simp add: state_batch [OF ne started])
qed

text \<open>
  Two filters, the second on the subject the sample fetch rejects; the first filter's
  fetch is fulfilled, and the two stale labels stay.
\<close>

theorem rejected_batch_keeps_labels_witness:
  "snd (statePromises sampleServices brokenState ! 1) = Rejected \<and>
   labels (ComparisonRangeLabel sampleServices brokenState [''stale'', ''labels''])
     = [''stale'', ''labels'']"
proof -
  have flt: "currentTimeRangeFilters brokenState
               = [januaryFilter, januaryFilter\<lparr> subject := ''broken'' \<rparr>]"
    and sh: "ensureIsArray (selectShifts brokenState) = [''1 week ago'']"
    by (simp_all add: state_defs sample_defs selector_defs)
  have p: "statePromises sampleServices brokenState =
      [([(''2024-01-01 : 2024-02-01'', ''ds'', Some [''1 week ago''])],
        Fulfilled (Response (Some ''[1 week ago]''))),
       ([(''2024-01-01 : 2024-02-01'', ''broken'', Some [''1 week ago''])], Rejected)]"
    by (simp add: statePromises_literal flt sh sample_defs)
  have h1: "ensureIsArray (selectShifts brokenState) \<noteq> [] \<or> truthy (selectStartDate brokenState)"
    by (simp add: sh)
  have h2: "Rejected \<in> snd ` set (statePromises sampleServices brokenState)"
    by (simp add: p)
  from rejected_batch_keeps_labels [OF h1 h2, of "[''stale'', ''labels'']"] p
  show ?thesis by simp
qed

subsection \<open>C8: a fulfilled batch\<close>

text \<open>
  Claim C8. When the batch is started and every promise is fulfilled, with the results
  \<open>rs\<close>, the label list after the effect is built from \<open>rs\<close> alone, whatever the
  labels were before: it has one label per active temporal filter, and the label at
  position \<open>i\<close> belongs to the result of the promise of the filter at position \<open>i\<close>: its
  value, or the empty string when the result has no value.
\<close>

theorem fulfilled_batch_replaces_labels:
  assumes ne: "currentTimeRangeFilters fd \<noteq> []"
    and started: "ensureIsArray (selectShifts fd) \<noteq> [] \<or> truthy (selectStartDate fd)"
    and fulfilled: "map snd (statePromises sv fd) = map Fulfilled rs"
  shows "labels (ComparisonRangeLabel sv fd old) = map labelOf rs \<and>
         length (labels (ComparisonRangeLabel sv fd old)) = length (currentTimeRangeFilters fd) \<and>
         (\<forall>i < length (currentTimeRangeFilters fd).
            snd (resolveFilter sv (selectStartDate fd)
                   (useStartDate sv (selectStartDate fd) (previousCustomFilter fd))
                   (ensureIsArray (selectShifts fd)) (currentTimeRangeFilters fd ! i))
              = Fulfilled (rs ! i) \<and>
            labels (ComparisonRangeLabel sv fd old) ! i =
              (case resp_value (rs ! i) of Some s \<Rightarrow> s | None \<Rightarrow> ''''))"
proof -
  have l: "labels (ComparisonRangeLabel sv fd old) = map labelOf rs"
    by (simp add: state_batch [OF ne started] fulfilled allSettled_map_Fulfilled)
  from fulfilled have "length (map snd (statePromises sv fd)) = length (map Fulfilled rs)"
    by simp
  then have len: "length rs = length (currentTimeRangeFilters fd)" by simp
  have "snd (resolveFilter sv (selectStartDate fd)
                   (useStartDate sv (selectStartDate fd) (previousCustomFilter fd))
                   (ensureIsArray (selectShifts fd)) (currentTimeRangeFilters fd ! i))
              = Fulfilled (rs ! i) \<and>
        labels (ComparisonRangeLabel sv fd old) ! i =
              (case resp_value (rs ! i) of Some s \<Rightarrow> s | None \<Rightarrow> '''')"
    if i: "i < length (currentTimeRangeFilters fd)" for i
  proof -
    from i len have "map snd (statePromises sv fd) ! i = Fulfilled (rs ! i)"
      by (simp add: fulfilled)
    with i have "snd (statePromises sv fd ! i) = Fulfilled (rs ! i)" by simp
    with i l len show ?thesis
      by (simp add: statePromises_nth labelOf_def split: option.split)
  qed
  with l len show ?thesis by simp
qed

text \<open>
  Two filters, the second on the subject for which the sample fetch returns no value.
\<close>

theorem fulfilled_batch_replaces_labels_witness:
  "labels (ComparisonRangeLabel sampleServices silentState [''stale'']) = [''[1 week ago]'', '''']"
proof -
  have flt: "currentTimeRangeFilters silentState
               = [januaryFilter, januaryFilter\<lparr> subject := ''silent'' \<rparr>]"
    and sh: "ensureIsArray (selectShifts silentState) = [''1 week ago'']"
    by (simp_all add: state_defs sample_defs selector_defs)
  have h1: "currentTimeRangeFilters silentState \<noteq> []"
    and h2: "ensureIsArray (selectShifts silentState) \<noteq> [] \<or> truthy (selectStartDate silentState)"
    by (simp_all add: flt sh)
  have h3: "map snd (statePromises sampleServices silentState) =
              map Fulfilled [Response (Some ''[1 week ago]''), Response None]"
    by (simp add: statePromises_literal flt sh sample_defs)
  from fulfilled_batch_replaces_labels [OF h1 h2 h3, of "[''stale'']"]
  show ?thesis by (simp add: labelOf_def)
qed

subsection \<open>C9: start date taken from the previous custom filter\<close>

text \<open>
  Claim C9. When no explicit start date is set and the previous custom temporal-range
  filters are \<open>p\<close> and possibly others, the start date handed to \<open>getTimeOffset\<close> is
  \<open>p\<close>'s comparator cut at \<open>.split(' : ')[0]\<close> (the text before the first \<open> : \<close>),
  parsed and formatted with \<open>YYYY-MM-DD\<close>. On the inherit path with a parseable start
  date, the second fetch is issued with the offsets computed from that start date, and
  nothing is asked of the date comparison: the gate is passed because no explicit start
  date is set.
\<close>

theorem previous_custom_start_date:
  assumes no_start: "\<not> truthy (selectStartDate fd)"
    and previous: "previousCustomFilter fd = Some (p # others)"
    and usd: "usd = dayjsFormat sv (parseDttmToDate sv (Some (splitFirst '' : '' (comparator p))))
                      ''YYYY-MM-DD''"
    and i: "i < length (currentTimeRangeFilters fd)"
    and flt: "flt = currentTimeRangeFilters fd ! i"
    and inh: "''inherit'' \<in> set (ensureIsArray (selectShifts fd))"
    and own: "fetchTimeRange sv (comparator flt) (subject flt) None = Fulfilled (Response (Some v))"
    and dates: "matchDEFAULT_DATE_PATTERN sv v = Some (ps # rest)"
    and ps: "ps \<noteq> []"
  shows "useStartDate sv (selectStartDate fd) (previousCustomFilter fd) = Some usd \<and>
         (\<forall>a b. comparator p = a @ '' : '' @ b \<and>
                 (\<forall>k < length a. take 3 (drop k (comparator p)) \<noteq> '' : '') \<longrightarrow>
                 splitFirst '' : '' (comparator p) = a) \<and>
         calls (ComparisonRangeLabel sv fd old) ! i =
           [(comparator flt, subject flt, None),
            (comparator flt, subject flt,
             Some (getTimeOffset sv
                     \<lparr> timeRangeFilter =
                         flt\<lparr> comparator := ps @ '' : '' @ templ (nthOpt (Some (ps # rest)) 1) \<rparr>,
                       shifts = filter isRelative (ensureIsArray (selectShifts fd)),
                       startDate = Some usd,
                       includeFutureOffsets = False \<rparr>
                   @ filter isLiteral (ensureIsArray (selectShifts fd))))]"
proof -
  let ?sd = "selectStartDate fd" and ?sh = "ensureIsArray (selectShifts fd)"
  have u: "useStartDate sv ?sd (previousCustomFilter fd) = Some usd"
    unfolding usd using no_start previous by (rule useStartDate_previous)
  have s: "splitFirst '' : '' (comparator p) = a"
    if "comparator p = a @ '' : '' @ b"
      and "\<forall>k < length a. take 3 (drop k (comparator p)) \<noteq> '' : ''" for a b
  proof -
    have sep: "'' : '' \<noteq> []" and len: "length '' : '' = 3" by simp_all
    from that have "\<forall>k < length a. take (length '' : '') (drop k (a @ '' : '' @ b)) \<noteq> '' : ''"
      by (simp only: len)
    from splitFirst_before [OF sep this] that(1) show ?thesis by (simp only:)
  qed
  from inh have started: "?sh \<noteq> [] \<or> truthy ?sd" by (rule shifts_nonempty)
  from inh have rel: "(''custom'' \<in> set ?sh \<and> truthy ?sd) \<or> ''inherit'' \<in> set ?sh" ..
  from own have own': "fetchTimeRange sv (comparator (currentTimeRangeFilters fd ! i))
           (subject (currentTimeRangeFilters fd ! i)) None = Fulfilled (Response (Some v))"
    by (simp add: flt)
  from no_start
  have gate: "isSameOrBefore sv (parseDttmToDate sv ?sd) (parseDttmToDate sv (Some ps))
                \<or> \<not> truthy ?sd" ..
  have "calls (ComparisonRangeLabel sv fd old) ! i =
           [(comparator flt, subject flt, None),
            (comparator flt, subject flt,
             Some (getTimeOffset sv
                     \<lparr> timeRangeFilter =
                         flt\<lparr> comparator := ps @ '' : '' @ templ (nthOpt (Some (ps # rest)) 1) \<rparr>,
                       shifts = filter isRelative ?sh,
                       startDate = Some usd,
                       includeFutureOffsets = False \<rparr>
                   @ filter isLiteral ?sh))]"
    by (simp add: state_calls_nth [OF i started] relative_own_range [OF i rel own']
          afterOwnRange_offsets [OF dates ps gate] u callFetch_def flt)
  with u s show ?thesis by blast
qed

text \<open>
  The inherit state again, with services whose date comparison always fails: the second
  fetch is issued all the same.
\<close>

theorem previous_custom_start_date_witness:
  "useStartDate neverBeforeServices (selectStartDate inheritState) (previousCustomFilter inheritState)
     = Some ''2023-12-01'' \<and>
   calls (ComparisonRangeLabel neverBeforeServices inheritState [''stale'']) ! 0 =
     [(''2024-01-01 : 2024-02-01'', ''ds'', None),
      (''2024-01-01 : 2024-02-01'', ''ds'', Some [''inherit from 2023-12-01'', ''1 week ago''])]"
proof -
  have flt: "currentTimeRangeFilters inheritState = [januaryFilter]"
    and sh: "ensureIsArray (selectShifts inheritState) = [''1 week ago'', ''inherit'']"
    and sd: "selectStartDate inheritState = None"
    and prev: "previousCustomFilter inheritState = Some (decemberFilter # [])"
    by (simp_all add: state_defs sample_defs selector_defs)
  have h1: "\<not> truthy (selectStartDate inheritState)"
    by (simp add: sd truthy_def)
  have h3: "''2023-12-01'' =
              dayjsFormat neverBeforeServices
                (parseDttmToDate neverBeforeServices
                   (Some (splitFirst '' : '' (comparator decemberFilter)))) ''YYYY-MM-DD''"
    by (simp add: neverBeforeServices_def sample_defs)
  have h4: "0 < length (currentTimeRangeFilters inheritState)"
    and h5: "januaryFilter = currentTimeRangeFilters inheritState ! 0"
    and h6: "''inherit'' \<in> set (ensureIsArray (selectShifts inheritState))"
    by (simp_all add: flt sh)
  have h7: "fetchTimeRange neverBeforeServices (comparator januaryFilter) (subject januaryFilter) None
              = Fulfilled (Response (Some ''2024-01-01 : 2024-02-01''))"
    and h8: "matchDEFAULT_DATE_PATTERN neverBeforeServices ''2024-01-01 : 2024-02-01''
              = Some (''2024-01-01'' # [''2024-02-01''])"
    and h9: "''2024-01-01'' \<noteq> []"
    by (simp_all add: neverBeforeServices_def sample_defs)
  have never: "\<not> isSameOrBefore neverBeforeServices a b" for a b
    by (simp add: neverBeforeServices_def sample_defs)
  have offs: "getTimeOffset neverBeforeServices
                \<lparr> timeRangeFilter =
                    januaryFilter\<lparr> comparator :=
                      ''2024-01-01'' @ '' : ''
                        @ templ (nthOpt (Some (''2024-01-01'' # [''2024-02-01''])) 1) \<rparr>,
                  shifts = filter isRelative [''1 week ago'', ''inherit''],
                  startDate = Some ''2023-12-01'',
                  includeFutureOffsets = False \<rparr>
              @ filter isLiteral [''1 week ago'', ''inherit'']
              = [''inherit from 2023-12-01'', ''1 week ago'']"
    by (simp add: neverBeforeServices_def sample_defs templ_def isLiteral_def isRelative_def)
  from previous_custom_start_date [OF h1 prev h3 h4 h5 h6 h7 h8 h9, of "[''stale'']"]
  show ?thesis unfolding sh offs by (simp add: januaryFilter_def)
qed

subsection \<open>C10: a start date without shift tags\<close>

text \<open>
  Claim C10. When the shift-tag list is empty, an explicit start date is set and there
  is an active temporal filter, exactly one fetch call is issued for each filter, with
  the filter's comparator, its subject and the empty shift list; the labels are
  determined by the results of these calls, and replacing the start date by any other
  non-empty one leaves the outcome of the effect unchanged.
\<close>

theorem start_date_only_enables_fetch:
  assumes ne: "currentTimeRangeFilters fd \<noteq> []"
    and no_shifts: "ensureIsArray (selectShifts fd) = []"
    and given: "truthy (selectStartDate fd)"
    and other: "truthy (Some sd')"
  shows "calls (ComparisonRangeLabel sv fd old) =
           map (\<lambda>f. [(comparator f, subject f, Some [])]) (currentTimeRangeFilters fd) \<and>
         labels (ComparisonRangeLabel sv fd old) =
           (case allSettled (map (\<lambda>f. fetchTimeRange sv (comparator f) (subject f) (Some []))
                                 (currentTimeRangeFilters fd)) of
              Rejected \<Rightarrow> old
            | Fulfilled res \<Rightarrow> map labelOf res) \<and>
         ComparisonRangeLabel sv (fd\<lparr> start_date_offset := Some sd' \<rparr>) old =
           ComparisonRangeLabel sv fd old"
proof -
  let ?fd' = "fd\<lparr> start_date_offset := Some sd' \<rparr>"
  note here = start_date_only [OF ne no_shifts given, of sv old]
  from ne have ne': "currentTimeRangeFilters ?fd' \<noteq> []"
    by (simp add: selectors_start_date_update)
  from no_shifts have no_shifts': "ensureIsArray (selectShifts ?fd') = []"
    by (simp add: selectors_start_date_update)
  from other have given': "truthy (selectStartDate ?fd')"
    by (simp add: selectors_start_date_update)
  from start_date_only [OF ne' no_shifts' given', of sv old] here
  have "ComparisonRangeLabel sv ?fd' old = ComparisonRangeLabel sv fd old"
    by (simp add: selectors_start_date_update)
  with here show ?thesis by simp
qed

text \<open>The sample state with no shifts, for the start dates 2024-03-01 and 1999-12-31.\<close>

theorem start_date_only_enables_fetch_witness:
  "calls (ComparisonRangeLabel sampleServices startOnlyState [''stale''])
     = [[(''2024-01-01 : 2024-02-01'', ''ds'', Some [])]] \<and>
   ComparisonRangeLabel sampleServices (startOnlyState\<lparr> start_date_offset := Some ''1999-12-31'' \<rparr>)
       [''stale'']
     = ComparisonRangeLabel sampleServices startOnlyState [''stale'']"
proof -
  have flt: "currentTimeRangeFilters startOnlyState = [januaryFilter]"
    and sh: "ensureIsArray (selectShifts startOnlyState) = []"
    and sd: "selectStartDate startOnlyState = Some ''2024-03-01''"
    by (simp_all add: state_defs sample_defs selector_defs)
  have h1: "currentTimeRangeFilters startOnlyState \<noteq> []"
    and h3: "truthy (selectStartDate startOnlyState)"
    and h4: "truthy (Some ''1999-12-31'')"
    by (simp_all add: flt sd truthy_def)
  from start_date_only_enables_fetch [OF h1 sh h3 h4, of sampleServices "[''stale'']"]
  show ?thesis by (simp add: flt januaryFilter_def)
qed

end
